theory Spec2Isabelle
  imports Complex_Main "HOL-Library.AList"
begin

section \<open>Values\<close>

text \<open>
  The client handles whatever \<^verbatim>\<open>response.json()\<close> returns: None, bool, int, float,
  str, list and dict. The code never computes with a float; it only compares numbers
  with the int constants 0 and 111, tests truthiness and copies values. A finite float is
  therefore represented by the rational number it denotes; the non-finite floats that
  Python's JSON parser accepts are kept as constructors of their own.

  A dict is the list of its items. Every lookup goes through \<open>map_of\<close>.
\<close>

datatype pyfloat = Finite rat | Infinity bool | NaN

datatype json =
    JNull
  | JBool bool
  | JInt int
  | JFloat pyfloat
  | JStr string
  | JList "json list"
  | JDict "(string \<times> json) list"

text \<open>Python's \<^verbatim>\<open>v == n\<close> for an int constant \<open>n\<close>: bool is a subtype of int, and a
  float equals an int when it has the same value.\<close>

fun py_eq_int :: "json \<Rightarrow> int \<Rightarrow> bool" where
  "py_eq_int (JInt i) n = (i = n)"
| "py_eq_int (JBool b) n = ((if b then 1 else 0) = n)"
| "py_eq_int (JFloat (Finite q)) n = (q = of_int n)"
| "py_eq_int _ n = False"

text \<open>Truthiness, as \<^verbatim>\<open>if v:\<close> and \<^verbatim>\<open>not v\<close> test it.\<close>

fun truthy :: "json \<Rightarrow> bool" where
  "truthy JNull = False"
| "truthy (JBool b) = b"
| "truthy (JInt i) = (i \<noteq> 0)"
| "truthy (JFloat (Finite q)) = (q \<noteq> 0)"
| "truthy (JFloat _) = True"
| "truthy (JStr s) = (s \<noteq> [])"
| "truthy (JList xs) = (xs \<noteq> [])"
| "truthy (JDict d) = (d \<noteq> [])"

definition has_key :: "(string \<times> json) list \<Rightarrow> string \<Rightarrow> bool" where
  "has_key d k = (map_of d k \<noteq> None)"

text \<open>\<^verbatim>\<open>d.get(k, default)\<close> on a dict.\<close>

definition dict_get :: "(string \<times> json) list \<Rightarrow> string \<Rightarrow> json \<Rightarrow> json" where
  "dict_get d k dflt = (case map_of d k of Some v \<Rightarrow> v | None \<Rightarrow> dflt)"

section \<open>Exceptions\<close>

text \<open>
  An exception is identified with its class; messages are dropped. \<open>mro\<close> lists a class
  and its ancestors (library classes are attached to \<open>Exception\<close> directly), following
  \<^verbatim>\<open>class CosaAPIError(Exception)\<close> and \<^verbatim>\<open>class CosaAuthError(CosaAPIError)\<close>.
\<close>

datatype exn =
    Exception
  | CosaAPIError
  | CosaAuthError
  | ClientError
  | TimeoutError
  | JSONDecodeError
  | TypeError
  | AttributeError
  | KeyError
  | UpdateFailed

fun mro :: "exn \<Rightarrow> exn list" where
  "mro CosaAuthError = [CosaAuthError, CosaAPIError, Exception]"
| "mro CosaAPIError = [CosaAPIError, Exception]"
| "mro Exception = [Exception]"
| "mro e = [e, Exception]"

definition isinstance :: "exn \<Rightarrow> exn \<Rightarrow> bool" where
  "isinstance e c = (c \<in> set (mro e))"

text \<open>A \<^verbatim>\<open>try\<close> statement runs the first \<^verbatim>\<open>except\<close> clause whose class the
  exception is an instance of.\<close>

fun first_handler :: "(exn \<times> 'h) list \<Rightarrow> exn \<Rightarrow> 'h option" where
  "first_handler [] e = None"
| "first_handler ((c, h) # hs) e = (if isinstance e c then Some h else first_handler hs e)"

section \<open>Dynamic operations on values\<close>

text \<open>\<^verbatim>\<open>v.get(k, default)\<close>: only a dict has the method.\<close>

fun py_get :: "json \<Rightarrow> string \<Rightarrow> json \<Rightarrow> exn + json" where
  "py_get (JDict d) k dflt = Inr (dict_get d k dflt)"
| "py_get _ k dflt = Inl AttributeError"

text \<open>\<^verbatim>\<open>d.get(key, default)\<close> on a dict with string keys, for a key that is any value:
  a list or a dict is unhashable.\<close>

fun py_get_key :: "(string \<times> json) list \<Rightarrow> json \<Rightarrow> json \<Rightarrow> exn + json" where
  "py_get_key d (JStr k) dflt = Inr (dict_get d k dflt)"
| "py_get_key d (JList xs) dflt = Inl TypeError"
| "py_get_key d (JDict kvs) dflt = Inl TypeError"
| "py_get_key d _ dflt = Inr dflt"

text \<open>\<^verbatim>\<open>len(v)\<close>.\<close>

fun py_len :: "json \<Rightarrow> exn + nat" where
  "py_len (JStr s) = Inr (length s)"
| "py_len (JList xs) = Inr (length xs)"
| "py_len (JDict d) = Inr (length d)"
| "py_len _ = Inl TypeError"

fun is_substring :: "string \<Rightarrow> string \<Rightarrow> bool" where
  "is_substring k [] = (k = [])"
| "is_substring k (c # cs) = (take (length k) (c # cs) = k \<or> is_substring k cs)"

text \<open>\<^verbatim>\<open>k in v\<close> for a str \<open>k\<close>.\<close>

fun py_contains :: "json \<Rightarrow> string \<Rightarrow> exn + bool" where
  "py_contains (JDict d) k = Inr (has_key d k)"
| "py_contains (JList xs) k = Inr (JStr k \<in> set xs)"
| "py_contains (JStr s) k = Inr (is_substring k s)"
| "py_contains _ k = Inl TypeError"

text \<open>\<^verbatim>\<open>v[k]\<close> for a str \<open>k\<close>.\<close>

fun py_index :: "json \<Rightarrow> string \<Rightarrow> exn + json" where
  "py_index (JDict d) k = (case map_of d k of Some v \<Rightarrow> Inr v | None \<Rightarrow> Inl KeyError)"
| "py_index _ k = Inl TypeError"

section \<open>The HTTP session\<close>

text \<open>
  A request is what \<^verbatim>\<open>session.post(url, json=..., headers=...)\<close> is given. The values
  the client copies into a request are kept as they are passed: Python does not enforce
  the annotations of the parameters.
\<close>

record request =
  req_url :: string
  req_json :: json
  req_headers :: "(string \<times> json) list"

text \<open>
  The body of a response is read lazily. \<open>Unreadable e\<close>: reading it raises \<open>e\<close>
  (\<^verbatim>\<open>text()\<close> and \<^verbatim>\<open>json()\<close> both raise). \<open>Unparsable e\<close>: \<^verbatim>\<open>text()\<close> returns and
  \<^verbatim>\<open>json()\<close> raises \<open>e\<close>. \<open>Parsed v\<close>: \<^verbatim>\<open>json()\<close> returns \<open>v\<close>.
\<close>

datatype body = Unreadable exn | Unparsable exn | Parsed json

record response =
  status :: int
  body :: body

text \<open>\<open>Raises e\<close>: the exchange itself raises (connection failure, timeout).\<close>

datatype reply = Raises exn | Reply response

text \<open>The session is owned by the host. The server answers a request knowing every
  request sent so far; \<open>sent\<close> records them in order.\<close>

record session =
  server :: "request list \<Rightarrow> reply"
  sent :: "request list"

definition post :: "session \<Rightarrow> request \<Rightarrow> reply \<times> session" where
  "post s req = (server s (sent s @ [req]), s\<lparr>sent := sent s @ [req]\<rparr>)"

text \<open>\<^verbatim>\<open>await response.text()\<close>; the text itself only feeds log lines and messages.\<close>

definition text_of :: "response \<Rightarrow> exn + unit" where
  "text_of r = (case body r of Unreadable e \<Rightarrow> Inl e | _ \<Rightarrow> Inr ())"

text \<open>\<^verbatim>\<open>await response.json()\<close>.\<close>

definition json_of :: "response \<Rightarrow> exn + json" where
  "json_of r = (case body r of Unreadable e \<Rightarrow> Inl e | Unparsable e \<Rightarrow> Inl e | Parsed v \<Rightarrow> Inr v)"

section \<open>Constants (const.py)\<close>

definition API_BASE_URL :: string where
  "API_BASE_URL = ''https://kiwi-api.nuvia.com.tr''"

definition ENDPOINT_LOGIN :: string where
  "ENDPOINT_LOGIN = ''/api/users/login''"

definition ENDPOINT_GET_ENDPOINTS :: string where
  "ENDPOINT_GET_ENDPOINTS = ''/api/endpoints/getEndpoints''"

definition ENDPOINT_GET_ENDPOINT :: string where
  "ENDPOINT_GET_ENDPOINT = ''/api/endpoints/getEndpoint''"

definition ENDPOINT_SET_MODE :: string where
  "ENDPOINT_SET_MODE = ''/api/endpoints/setMode''"

definition ENDPOINT_SET_TARGET_TEMPERATURES :: string where
  "ENDPOINT_SET_TARGET_TEMPERATURES = ''/api/endpoints/setTargetTemperatures''"

definition HEADER_USER_AGENT :: string where
  "HEADER_USER_AGENT = ''Cosa/1 CFNetwork/3860.200.71 Darwin/25.1.0''"

definition HEADER_CONTENT_TYPE :: string where
  "HEADER_CONTENT_TYPE = ''application/json''"

definition HEADER_PROVIDER :: string where
  "HEADER_PROVIDER = ''cosa''"

section \<open>The API client (api.py)\<close>

definition get_base_headers :: "(string \<times> json) list" where
  "get_base_headers =
     [(''User-Agent'', JStr HEADER_USER_AGENT),
      (''Content-Type'', JStr HEADER_CONTENT_TYPE),
      (''provider'', JStr HEADER_PROVIDER),
      (''Accept'', JStr ''*/*''),
      (''Accept-Language'', JStr ''tr-TR,tr;q=0.9'')]"

definition get_auth_headers :: "json \<Rightarrow> (string \<times> json) list" where
  "get_auth_headers token = AList.update ''authtoken'' token get_base_headers"

text \<open>\<^verbatim>\<open>isinstance(data, dict) and data.get("ok") == 0\<close>.\<close>

fun ok_is_zero :: "json \<Rightarrow> bool" where
  "ok_is_zero (JDict d) = py_eq_int (dict_get d ''ok'' JNull) 0"
| "ok_is_zero _ = False"

text \<open>\<^verbatim>\<open>data.get("code", "unknown")\<close>, evaluated only where \<open>data\<close> is a dict.\<close>

fun error_code :: "json \<Rightarrow> json" where
  "error_code (JDict d) = dict_get d ''code'' (JStr ''unknown'')"
| "error_code _ = JStr ''unknown''"

text \<open>Every operation wraps its exchange in
  \<^verbatim>\<open>except aiohttp.ClientError as err: raise CosaAPIError(...)\<close>.\<close>

definition wrap_client_error :: "exn + 'a \<Rightarrow> exn + 'a" where
  "wrap_client_error res =
     (case res of
        Inl e \<Rightarrow> if isinstance e ClientError then Inl CosaAPIError else Inl e
      | Inr v \<Rightarrow> Inr v)"

definition on_reply :: "(response \<Rightarrow> exn + 'a) \<Rightarrow> reply \<Rightarrow> exn + 'a" where
  "on_reply h rep = (case rep of Raises e \<Rightarrow> Inl e | Reply r \<Rightarrow> h r)"

subsection \<open>login\<close>

definition token_keys :: "string list" where
  "token_keys = [''authtoken'', ''authToken'', ''token'', ''accessToken'', ''access_token'']"

text \<open>\<^verbatim>\<open>for key in keys: if key in data and isinstance(data[key], str): return data[key]\<close>;
  \<open>Inr None\<close> when the loop ends without returning.\<close>

fun scan_keys :: "json \<Rightarrow> string list \<Rightarrow> exn + string option" where
  "scan_keys data [] = Inr None"
| "scan_keys data (k # ks) =
     (case py_contains data k of
        Inl e \<Rightarrow> Inl e
      | Inr False \<Rightarrow> scan_keys data ks
      | Inr True \<Rightarrow>
          (case py_index data k of
             Inl e \<Rightarrow> Inl e
           | Inr (JStr t) \<Rightarrow> Inr (Some t)
           | Inr _ \<Rightarrow> scan_keys data ks))"

definition extract_token :: "json \<Rightarrow> exn + string option" where
  "extract_token data =
     (case scan_keys data token_keys of
        Inl e \<Rightarrow> Inl e
      | Inr (Some t) \<Rightarrow> Inr (Some t)
      | Inr None \<Rightarrow>
          (case py_contains data ''data'' of
             Inl e \<Rightarrow> Inl e
           | Inr False \<Rightarrow> Inr None
           | Inr True \<Rightarrow>
               (case py_index data ''data'' of
                  Inl e \<Rightarrow> Inl e
                | Inr (JDict n) \<Rightarrow> scan_keys (JDict n) token_keys
                | Inr _ \<Rightarrow> Inr None)))"

definition login_request :: "json \<Rightarrow> json \<Rightarrow> request" where
  "login_request email password =
     \<lparr>req_url = API_BASE_URL @ ENDPOINT_LOGIN,
      req_json = JDict [(''email'', email), (''password'', password)],
      req_headers = get_base_headers\<rparr>"

definition login_response :: "response \<Rightarrow> exn + string" where
  "login_response r =
     (case text_of r of
        Inl e \<Rightarrow> Inl e
      | Inr _ \<Rightarrow>
          if status r = 401 then Inl CosaAuthError
          else if status r = 200 then
            (case json_of r of
               Inl e \<Rightarrow> if isinstance e Exception then Inl CosaAPIError else Inl e
             | Inr data \<Rightarrow>
                 if ok_is_zero data then
                   (if py_eq_int (error_code data) 111 then Inl CosaAuthError
                    else Inl CosaAPIError)
                 else
                   (case extract_token data of
                      Inl e \<Rightarrow> Inl e
                    | Inr None \<Rightarrow> Inl CosaAPIError
                    | Inr (Some t) \<Rightarrow> if t = [] then Inl CosaAPIError else Inr t))
          else Inl CosaAPIError)"

definition login :: "session \<Rightarrow> json \<Rightarrow> json \<Rightarrow> (exn + string) \<times> session" where
  "login s email password =
     (let (rep, s') = post s (login_request email password)
      in (wrap_client_error (on_reply login_response rep), s'))"

subsection \<open>get_endpoints\<close>

definition get_endpoints_request :: "json \<Rightarrow> request" where
  "get_endpoints_request token =
     \<lparr>req_url = API_BASE_URL @ ENDPOINT_GET_ENDPOINTS,
      req_json = JDict [],
      req_headers = get_auth_headers token\<rparr>"

text \<open>The debug line before the return evaluates \<^verbatim>\<open>len(endpoints)\<close>.\<close>

definition get_endpoints_response :: "response \<Rightarrow> exn + json" where
  "get_endpoints_response r =
     (case text_of r of
        Inl e \<Rightarrow> Inl e
      | Inr _ \<Rightarrow>
          if status r = 401 then Inl CosaAuthError
          else if status r \<noteq> 200 then Inl CosaAPIError
          else
            (case json_of r of
               Inl e \<Rightarrow> Inl e
             | Inr data \<Rightarrow>
                 if ok_is_zero data then Inl CosaAPIError
                 else
                   (case py_get data ''endpoints'' (JList []) of
                      Inl e \<Rightarrow> Inl e
                    | Inr endpoints \<Rightarrow>
                        (case py_len endpoints of
                           Inl e \<Rightarrow> Inl e
                         | Inr n \<Rightarrow> Inr endpoints))))"

definition get_endpoints :: "session \<Rightarrow> json \<Rightarrow> (exn + json) \<times> session" where
  "get_endpoints s token =
     (let (rep, s') = post s (get_endpoints_request token)
      in (wrap_client_error (on_reply get_endpoints_response rep), s'))"

subsection \<open>get_endpoint_detail\<close>

definition get_endpoint_detail_request :: "json \<Rightarrow> json \<Rightarrow> request" where
  "get_endpoint_detail_request token endpoint_id =
     \<lparr>req_url = API_BASE_URL @ ENDPOINT_GET_ENDPOINT,
      req_json = JDict [(''endpoint'', endpoint_id)],
      req_headers = get_auth_headers token\<rparr>"

definition get_endpoint_detail_response :: "response \<Rightarrow> exn + json" where
  "get_endpoint_detail_response r =
     (if status r = 401 then Inl CosaAuthError
      else if status r \<noteq> 200 then
        (case text_of r of Inl e \<Rightarrow> Inl e | Inr _ \<Rightarrow> Inl CosaAPIError)
      else
        (case json_of r of
           Inl e \<Rightarrow> Inl e
         | Inr data \<Rightarrow>
             if ok_is_zero data then Inl CosaAPIError
             else py_get data ''endpoint'' data))"

definition get_endpoint_detail :: "session \<Rightarrow> json \<Rightarrow> json \<Rightarrow> (exn + json) \<times> session" where
  "get_endpoint_detail s token endpoint_id =
     (let (rep, s') = post s (get_endpoint_detail_request token endpoint_id)
      in (wrap_client_error (on_reply get_endpoint_detail_response rep), s'))"

subsection \<open>set_mode and set_target_temperatures\<close>

text \<open>The two setters classify a response the same way and return \<^verbatim>\<open>True\<close>.\<close>

definition set_mode_request :: "json \<Rightarrow> json \<Rightarrow> json \<Rightarrow> json \<Rightarrow> request" where
  "set_mode_request token endpoint_id mode option =
     \<lparr>req_url = API_BASE_URL @ ENDPOINT_SET_MODE,
      req_json =
        JDict (let payload = [(''endpoint'', endpoint_id), (''mode'', mode)]
               in if truthy option then AList.update ''option'' option payload else payload),
      req_headers = get_auth_headers token\<rparr>"

definition set_mode_response :: "response \<Rightarrow> exn + bool" where
  "set_mode_response r =
     (if status r = 401 then Inl CosaAuthError
      else if status r \<noteq> 200 then
        (case text_of r of Inl e \<Rightarrow> Inl e | Inr _ \<Rightarrow> Inl CosaAPIError)
      else
        (case json_of r of
           Inl e \<Rightarrow> Inl e
         | Inr data \<Rightarrow> if ok_is_zero data then Inl CosaAPIError else Inr True))"

definition set_mode ::
  "session \<Rightarrow> json \<Rightarrow> json \<Rightarrow> json \<Rightarrow> json \<Rightarrow> (exn + bool) \<times> session" where
  "set_mode s token endpoint_id mode option =
     (let (rep, s') = post s (set_mode_request token endpoint_id mode option)
      in (wrap_client_error (on_reply set_mode_response rep), s'))"

definition set_target_temperatures_request ::
  "json \<Rightarrow> json \<Rightarrow> json \<Rightarrow> json \<Rightarrow> json \<Rightarrow> json \<Rightarrow> request" where
  "set_target_temperatures_request token endpoint_id home away sleep custom =
     \<lparr>req_url = API_BASE_URL @ ENDPOINT_SET_TARGET_TEMPERATURES,
      req_json =
        JDict [(''endpoint'', endpoint_id),
               (''targetTemperatures'',
                JDict [(''home'', home), (''away'', away),
                       (''sleep'', sleep), (''custom'', custom)])],
      req_headers = get_auth_headers token\<rparr>"

definition set_target_temperatures_response :: "response \<Rightarrow> exn + bool" where
  "set_target_temperatures_response r =
     (if status r = 401 then Inl CosaAuthError
      else if status r \<noteq> 200 then
        (case text_of r of Inl e \<Rightarrow> Inl e | Inr _ \<Rightarrow> Inl CosaAPIError)
      else
        (case json_of r of
           Inl e \<Rightarrow> Inl e
         | Inr data \<Rightarrow> if ok_is_zero data then Inl CosaAPIError else Inr True))"

definition set_target_temperatures ::
  "session \<Rightarrow> json \<Rightarrow> json \<Rightarrow> json \<Rightarrow> json \<Rightarrow> json \<Rightarrow> json \<Rightarrow> (exn + bool) \<times> session" where
  "set_target_temperatures s token endpoint_id home away sleep custom =
     (let (rep, s') =
        post s (set_target_temperatures_request token endpoint_id home away sleep custom)
      in (wrap_client_error (on_reply set_target_temperatures_response rep), s'))"

subsection \<open>extract_endpoint_state\<close>

text \<open>The result is the dict the function builds, with its eleven keys in order.
  \<^verbatim>\<open>endpoint.get\<close> needs a dict; the lookup \<^verbatim>\<open>target_temps.get(option, 20.0)\<close> is only
  evaluated when \<^verbatim>\<open>targetTemperature\<close> is missing or None.\<close>

definition py_or :: "json \<Rightarrow> json \<Rightarrow> json" where
  "py_or a b = (if truthy a then a else b)"

definition extract_endpoint_state :: "json \<Rightarrow> exn + json" where
  "extract_endpoint_state endpoint =
     (case endpoint of
        JDict d \<Rightarrow>
          (let mode = dict_get d ''mode'' (JStr ''manual'');
               option = dict_get d ''option'' (JStr ''home'');
               target_temps =
                 (if has_key d ''homeTemperature'' then
                    [(''home'', dict_get d ''homeTemperature'' (JFloat (Finite 20))),
                     (''away'', dict_get d ''awayTemperature'' (JFloat (Finite 15))),
                     (''sleep'', dict_get d ''sleepTemperature'' (JFloat (Finite 18))),
                     (''custom'', dict_get d ''customTemperature'' (JFloat (Finite 20)))]
                  else
                    [(''home'', JFloat (Finite 20)),
                     (''away'', JFloat (Finite 15)),
                     (''sleep'', JFloat (Finite 18)),
                     (''custom'', JFloat (Finite 20))]);
               current_target = dict_get d ''targetTemperature'' JNull
           in case (if current_target = JNull
                    then py_get_key target_temps option (JFloat (Finite 20))
                    else Inr current_target) of
                Inl e \<Rightarrow> Inl e
              | Inr current_target' \<Rightarrow>
                  (let combi_state = dict_get d ''combiState'' (JStr ''off'')
                   in Inr (JDict
                        [(''endpoint_id'', py_or (dict_get d ''id'' JNull) (dict_get d ''_id'' JNull)),
                         (''name'', dict_get d ''name'' (JStr ''COSA Termostat'')),
                         (''temperature'', dict_get d ''temperature'' JNull),
                         (''humidity'', dict_get d ''humidity'' JNull),
                         (''target_temperature'', current_target'),
                         (''mode'', mode),
                         (''option'', option),
                         (''combi_state'', combi_state),
                         (''is_connected'', dict_get d ''isConnected'' (JBool False)),
                         (''operation_mode'', dict_get d ''operationMode'' (JStr ''heating'')),
                         (''target_temperatures'', JDict target_temps)])))
      | _ \<Rightarrow> Inl AttributeError)"

section \<open>The polling coordinator (climate.py)\<close>

text \<open>The fields of \<^verbatim>\<open>CosaCoordinator\<close> that a refresh uses; they come from the config
  entry unchecked.\<close>

record coordinator =
  self_email :: json
  self_password :: json
  self_token :: json
  self_endpoint_id :: json
  self_place_id :: json

text \<open>
  The \<^verbatim>\<open>try\<close> block of \<^verbatim>\<open>_async_update_data\<close>. The call is
  \<^verbatim>\<open>get_endpoint_detail(self._endpoint_id, self._token)\<close>, positionally, against the
  signature \<^verbatim>\<open>get_endpoint_detail(token, endpoint_id)\<close>. \<^verbatim>\<open>CosaAPI\<close> defines no
  \<^verbatim>\<open>get_forecast\<close>, so evaluating \<^verbatim>\<open>self._api.get_forecast\<close> raises AttributeError.
\<close>

definition update_try :: "coordinator \<Rightarrow> session \<Rightarrow> (exn + json) \<times> session" where
  "update_try c s =
     (let (res, s1) = get_endpoint_detail s (self_endpoint_id c) (self_token c)
      in case res of
           Inl e \<Rightarrow> (Inl e, s1)
         | Inr detail \<Rightarrow>
             if truthy (self_place_id c) then (Inl AttributeError, s1)
             else (Inr (JDict [(''endpoint'', detail), (''forecast'', JDict [])]), s1))"

text \<open>
  The clause \<^verbatim>\<open>except CosaAuthError\<close>. \<^verbatim>\<open>login\<close> returns the token, a str, and the
  clause calls \<^verbatim>\<open>login_result.get("ok")\<close> on it. An exception raised inside the clause
  is not seen by the sibling clause \<^verbatim>\<open>except CosaAPIError\<close>.
\<close>

definition update_relogin ::
  "coordinator \<Rightarrow> session \<Rightarrow> (exn + json) \<times> coordinator \<times> session" where
  "update_relogin c s1 =
     (let (lr, s2) = login s1 (self_email c) (self_password c)
      in case lr of
           Inl e \<Rightarrow> (Inl e, c, s2)
         | Inr t \<Rightarrow>
             (let login_result = JStr t
              in case py_get login_result ''ok'' JNull of
                   Inl e \<Rightarrow> (Inl e, c, s2)
                 | Inr ok \<Rightarrow>
                     if truthy ok then
                       (case py_get login_result ''token'' JNull of
                          Inl e \<Rightarrow> (Inl e, c, s2)
                        | Inr tok \<Rightarrow>
                            (let c' = c\<lparr>self_token := tok\<rparr>;
                                 (res, s3) =
                                   get_endpoint_detail s2 (self_endpoint_id c') (self_token c')
                             in case res of
                                  Inl e \<Rightarrow> (Inl e, c', s3)
                                | Inr detail \<Rightarrow>
                                    (Inr (JDict [(''endpoint'', detail), (''forecast'', JDict [])]),
                                     c', s3)))
                     else (Inl UpdateFailed, c, s2)))"

datatype handler = Relogin | Wrap

text \<open>The \<^verbatim>\<open>except\<close> clauses of \<^verbatim>\<open>_async_update_data\<close>, in the order written.\<close>

definition update_handlers :: "(exn \<times> handler) list" where
  "update_handlers = [(CosaAuthError, Relogin), (CosaAPIError, Wrap)]"

definition async_update_data ::
  "coordinator \<Rightarrow> session \<Rightarrow> (exn + json) \<times> coordinator \<times> session" where
  "async_update_data c s =
     (let (res, s1) = update_try c s
      in case res of
           Inr v \<Rightarrow> (Inr v, c, s1)
         | Inl e \<Rightarrow>
             (case first_handler update_handlers e of
                Some Relogin \<Rightarrow> update_relogin c s1
              | Some Wrap \<Rightarrow> (Inl UpdateFailed, c, s1)
              | None \<Rightarrow> (Inl e, c, s1)))"

section \<open>Vocabulary of the properties\<close>

text \<open>The five operations of the client under one type, to speak of all of them at
  once: the request each one sends and the exception it raises (\<open>None\<close> when it
  returns).\<close>

datatype operation =
    Login json json
  | GetEndpoints json
  | GetEndpointDetail json json
  | SetMode json json json json
  | SetTargetTemperatures json json json json json json

fun request_of :: "operation \<Rightarrow> request" where
  "request_of (Login email password) = login_request email password"
| "request_of (GetEndpoints token) = get_endpoints_request token"
| "request_of (GetEndpointDetail token endpoint_id) =
     get_endpoint_detail_request token endpoint_id"
| "request_of (SetMode token endpoint_id mode option) =
     set_mode_request token endpoint_id mode option"
| "request_of (SetTargetTemperatures token endpoint_id home away sleep custom) =
     set_target_temperatures_request token endpoint_id home away sleep custom"

definition exn_of :: "exn + 'a \<Rightarrow> exn option" where
  "exn_of res = (case res of Inl e \<Rightarrow> Some e | Inr v \<Rightarrow> None)"

fun raised :: "session \<Rightarrow> operation \<Rightarrow> exn option" where
  "raised s (Login email password) = exn_of (fst (login s email password))"
| "raised s (GetEndpoints token) = exn_of (fst (get_endpoints s token))"
| "raised s (GetEndpointDetail token endpoint_id) =
     exn_of (fst (get_endpoint_detail s token endpoint_id))"
| "raised s (SetMode token endpoint_id mode option) =
     exn_of (fst (set_mode s token endpoint_id mode option))"
| "raised s (SetTargetTemperatures token endpoint_id home away sleep custom) =
     exn_of (fst (set_target_temperatures s token endpoint_id home away sleep custom))"

fun is_login :: "operation \<Rightarrow> bool" where
  "is_login (Login email password) = True"
| "is_login _ = False"

text \<open>\<^verbatim>\<open>login\<close> and \<^verbatim>\<open>get_endpoints\<close> read the text of the response before they look
  at its status.\<close>

fun reads_text_first :: "operation \<Rightarrow> bool" where
  "reads_text_first (Login email password) = True"
| "reads_text_first (GetEndpoints token) = True"
| "reads_text_first _ = False"

fun readable :: "response \<Rightarrow> bool" where
  "readable r = (case body r of Unreadable e \<Rightarrow> False | _ \<Rightarrow> True)"

text \<open>A server that answers the n-th request with the n-th reply of a script, and fails
  to connect afterwards.\<close>

fun scripted :: "reply list \<Rightarrow> request list \<Rightarrow> reply" where
  "scripted [] reqs = Raises ClientError"
| "scripted (rep # reps) [] = Raises ClientError"
| "scripted (rep # reps) [req] = rep"
| "scripted (rep # reps) (req # req' # reqs) = scripted reps (req' # reqs)"

text \<open>The strings that the supported token fields of a login body hold, at the top
  level and under a \<^verbatim>\<open>data\<close> wrapper.\<close>

definition held_string :: "(string \<times> json) list \<Rightarrow> string \<Rightarrow> string option" where
  "held_string d k = (case map_of d k of Some (JStr t) \<Rightarrow> Some t | _ \<Rightarrow> None)"

definition token_fields :: "(string \<times> json) list \<Rightarrow> string list" where
  "token_fields d =
     List.map_filter (held_string d) token_keys @
     (case map_of d ''data'' of
        Some (JDict n) \<Rightarrow> List.map_filter (held_string n) token_keys
      | _ \<Rightarrow> [])"

text \<open>The values \<^verbatim>\<open>len\<close> accepts, and the values a dict accepts as a key.\<close>

fun has_len :: "json \<Rightarrow> bool" where
  "has_len (JStr s) = True"
| "has_len (JList xs) = True"
| "has_len (JDict d) = True"
| "has_len _ = False"

fun hashable :: "json \<Rightarrow> bool" where
  "hashable (JList xs) = False"
| "hashable (JDict d) = False"
| "hashable _ = True"

text \<open>A device record whose current target can be determined: it carries a
  \<^verbatim>\<open>targetTemperature\<close> that is not None, or its option can be looked up.\<close>

definition target_resolvable :: "(string \<times> json) list \<Rightarrow> bool" where
  "target_resolvable d =
     (dict_get d ''targetTemperature'' JNull \<noteq> JNull \<or>
      hashable (dict_get d ''option'' (JStr ''home'')))"

text \<open>The value of \<^verbatim>\<open>target_temps\<close> in \<^verbatim>\<open>extract_endpoint_state\<close>, on its own.\<close>

definition target_temps_of :: "(string \<times> json) list \<Rightarrow> (string \<times> json) list" where
  "target_temps_of d =
     (if has_key d ''homeTemperature'' then
        [(''home'', dict_get d ''homeTemperature'' (JFloat (Finite 20))),
         (''away'', dict_get d ''awayTemperature'' (JFloat (Finite 15))),
         (''sleep'', dict_get d ''sleepTemperature'' (JFloat (Finite 18))),
         (''custom'', dict_get d ''customTemperature'' (JFloat (Finite 20)))]
      else
        [(''home'', JFloat (Finite 20)), (''away'', JFloat (Finite 15)),
         (''sleep'', JFloat (Finite 18)), (''custom'', JFloat (Finite 20))])"

text \<open>A session that has sent nothing yet, against a scripted server.\<close>

definition probe :: "reply list \<Rightarrow> session" where
  "probe reps = \<lparr>server = scripted reps, sent = []\<rparr>"

text \<open>A coordinator whose token has expired, and a server that rejects the first
  request with 401, accepts the login that follows and would serve the device detail
  after it.\<close>

definition stale_coordinator :: coordinator where
  "stale_coordinator =
     \<lparr>self_email = JStr ''user@example.com'', self_password = JStr ''secret'',
      self_token = JStr ''old'', self_endpoint_id = JStr ''ep1'', self_place_id = JNull\<rparr>"

definition expired_then_fresh :: "reply list" where
  "expired_then_fresh =
     [Reply \<lparr>status = 401, body = Parsed JNull\<rparr>,
      Reply \<lparr>status = 200,
        body = Parsed (JDict [(''ok'', JInt 1), (''token'', JStr ''new'')])\<rparr>,
      Reply \<lparr>status = 200,
        body = Parsed (JDict [(''endpoint'', JDict [(''id'', JStr ''ep1'')]), (''ok'', JInt 1)])\<rparr>]"

section \<open>Basic facts\<close>

lemma post_sent: "sent (snd (post s req)) = sent s @ [req]"
  by (simp add: post_def)

lemma probe_post: "fst (post (probe (rep # reps)) req) = rep"
  by (simp add: probe_def post_def)

lemma on_reply_Reply: "on_reply h (Reply r) = h r"
  by (simp add: on_reply_def)

lemma wrap_simps:
  "wrap_client_error (Inr v) = Inr v"
  "wrap_client_error (Inl CosaAuthError) = Inl CosaAuthError"
  "wrap_client_error (Inl CosaAPIError) = Inl CosaAPIError"
  "wrap_client_error (Inl TypeError) = Inl TypeError"
  "wrap_client_error (Inl AttributeError) = Inl AttributeError"
  "wrap_client_error (Inl ClientError) = Inl CosaAPIError"
  by (simp_all add: wrap_client_error_def isinstance_def)

lemma exn_of_simps: "exn_of (Inl e) = Some e" "exn_of (Inr v) = None"
  by (simp_all add: exn_of_def)

lemma text_of_readable: "readable r \<Longrightarrow> text_of r = Inr ()"
  by (cases "body r") (simp_all add: text_of_def)

lemma text_of_Parsed: "body r = Parsed v \<Longrightarrow> text_of r = Inr ()"
  by (simp add: text_of_def)

lemma json_of_Parsed: "body r = Parsed v \<Longrightarrow> json_of r = Inr v"
  by (simp add: json_of_def)

text \<open>Each operation posts one request and classifies the reply.\<close>

lemma login_fst:
  "fst (login s email password) =
     wrap_client_error (on_reply login_response (fst (post s (login_request email password))))"
  by (simp add: login_def split: prod.splits)

lemma login_snd:
  "snd (login s email password) = snd (post s (login_request email password))"
  by (simp add: login_def split: prod.splits)

lemma get_endpoints_fst:
  "fst (get_endpoints s token) =
     wrap_client_error
       (on_reply get_endpoints_response (fst (post s (get_endpoints_request token))))"
  by (simp add: get_endpoints_def split: prod.splits)

lemma get_endpoint_detail_fst:
  "fst (get_endpoint_detail s token endpoint_id) =
     wrap_client_error (on_reply get_endpoint_detail_response
       (fst (post s (get_endpoint_detail_request token endpoint_id))))"
  by (simp add: get_endpoint_detail_def split: prod.splits)

lemma set_mode_fst:
  "fst (set_mode s token endpoint_id mode option) =
     wrap_client_error (on_reply set_mode_response
       (fst (post s (set_mode_request token endpoint_id mode option))))"
  by (simp add: set_mode_def split: prod.splits)

lemma set_mode_snd:
  "snd (set_mode s token endpoint_id mode option) =
     snd (post s (set_mode_request token endpoint_id mode option))"
  by (simp add: set_mode_def split: prod.splits)

lemma set_target_temperatures_fst:
  "fst (set_target_temperatures s token endpoint_id home away sleep custom) =
     wrap_client_error (on_reply set_target_temperatures_response
       (fst (post s (set_target_temperatures_request token endpoint_id home away sleep custom))))"
  by (simp add: set_target_temperatures_def split: prod.splits)

lemma set_target_temperatures_snd:
  "snd (set_target_temperatures s token endpoint_id home away sleep custom) =
     snd (post s (set_target_temperatures_request token endpoint_id home away sleep custom))"
  by (simp add: set_target_temperatures_def split: prod.splits)

section \<open>Error classification\<close>

text \<open>
  C1, as the code has it. Whatever the operation, if the server answers its request with
  status 401 the operation raises \<open>CosaAuthError\<close>; \<^verbatim>\<open>login\<close> and
  \<^verbatim>\<open>get_endpoints\<close> read the text of the response first, so there the body must be
  readable. If the answer has status 200 and its body is a dict with \<^verbatim>\<open>ok == 0\<close>,
  \<^verbatim>\<open>login\<close> raises \<open>CosaAuthError\<close> when the code is 111 and \<open>CosaAPIError\<close>
  otherwise, and the four token-authenticated operations raise \<open>CosaAPIError\<close> whatever
  the code is, 111 included.
\<close>

theorem auth_error_classification:
  assumes "fst (post s (request_of op)) = Reply r"
  shows "(status r = 401 \<and> (reads_text_first op \<longrightarrow> readable r) \<longrightarrow>
            raised s op = Some CosaAuthError) \<and>
         (status r = 200 \<and> body r = Parsed (JDict d) \<and> ok_is_zero (JDict d) \<longrightarrow>
            raised s op =
              Some (if is_login op \<and> py_eq_int (error_code (JDict d)) 111
                    then CosaAuthError else CosaAPIError))"
proof (cases op)
  case (Login email password)
  with assms show ?thesis
    by (auto simp: login_fst on_reply_Reply login_response_def text_of_readable
        text_of_Parsed json_of_Parsed wrap_simps exn_of_simps)
next
  case (GetEndpoints token)
  with assms show ?thesis
    by (auto simp: get_endpoints_fst on_reply_Reply get_endpoints_response_def text_of_readable
        text_of_Parsed json_of_Parsed wrap_simps exn_of_simps)
next
  case (GetEndpointDetail token endpoint_id)
  with assms show ?thesis
    by (auto simp: get_endpoint_detail_fst on_reply_Reply get_endpoint_detail_response_def
        json_of_Parsed wrap_simps exn_of_simps)
next
  case (SetMode token endpoint_id mode option)
  with assms show ?thesis
    by (auto simp: set_mode_fst on_reply_Reply set_mode_response_def
        json_of_Parsed wrap_simps exn_of_simps)
next
  case (SetTargetTemperatures token endpoint_id home away sleep custom)
  with assms show ?thesis
    by (auto simp: set_target_temperatures_fst on_reply_Reply
        set_target_temperatures_response_def json_of_Parsed wrap_simps exn_of_simps)
qed

text \<open>The classification at three exchanges: an expired token on \<^verbatim>\<open>get_endpoints\<close>,
  code 111 in a 200 answer to \<^verbatim>\<open>login\<close>, and the same body answering
  \<^verbatim>\<open>set_mode\<close>.\<close>

theorem auth_error_classification_witness:
  "raised (probe [Reply \<lparr>status = 401, body = Parsed JNull\<rparr>]) (GetEndpoints (JStr ''tok''))
     = Some CosaAuthError \<and>
   raised (probe [Reply \<lparr>status = 200,
       body = Parsed (JDict [(''ok'', JInt 0), (''code'', JInt 111)])\<rparr>])
     (Login (JStr ''user@example.com'') (JStr ''wrong'')) = Some CosaAuthError \<and>
   raised (probe [Reply \<lparr>status = 200,
       body = Parsed (JDict [(''ok'', JInt 0), (''code'', JInt 111)])\<rparr>])
     (SetMode (JStr ''tok'') (JStr ''ep1'') (JStr ''auto'') JNull) = Some CosaAPIError"
  using
    auth_error_classification
      [of "probe [Reply \<lparr>status = 401, body = Parsed JNull\<rparr>]" "GetEndpoints (JStr ''tok'')"
        "\<lparr>status = 401, body = Parsed JNull\<rparr>" "[]"]
    auth_error_classification
      [of "probe [Reply \<lparr>status = 200,
          body = Parsed (JDict [(''ok'', JInt 0), (''code'', JInt 111)])\<rparr>]"
        "Login (JStr ''user@example.com'') (JStr ''wrong'')"
        "\<lparr>status = 200, body = Parsed (JDict [(''ok'', JInt 0), (''code'', JInt 111)])\<rparr>"
        "[(''ok'', JInt 0), (''code'', JInt 111)]"]
    auth_error_classification
      [of "probe [Reply \<lparr>status = 200,
          body = Parsed (JDict [(''ok'', JInt 0), (''code'', JInt 111)])\<rparr>]"
        "SetMode (JStr ''tok'') (JStr ''ep1'') (JStr ''auto'') JNull"
        "\<lparr>status = 200, body = Parsed (JDict [(''ok'', JInt 0), (''code'', JInt 111)])\<rparr>"
        "[(''ok'', JInt 0), (''code'', JInt 111)]"]
  by (simp add: probe_post dict_get_def)

text \<open>C1 as stated does not hold: \<^verbatim>\<open>get_endpoints\<close> answered with status 200 and the
  body \<^verbatim>\<open>{"ok": 0, "code": 111}\<close> raises \<open>CosaAPIError\<close>, and so does \<^verbatim>\<open>login\<close>
  answered with status 401 when reading the body fails with a client error.\<close>

theorem bad_credential_code_counterexample:
  "fst (get_endpoints (probe [Reply \<lparr>status = 200,
       body = Parsed (JDict [(''ok'', JInt 0), (''code'', JInt 111)])\<rparr>]) (JStr ''tok''))
     = Inl CosaAPIError \<and>
   fst (login (probe [Reply \<lparr>status = 401, body = Unreadable ClientError\<rparr>])
       (JStr ''user@example.com'') (JStr ''secret'')) = Inl CosaAPIError"
  by (simp add: get_endpoints_fst login_fst probe_post on_reply_Reply get_endpoints_response_def
      login_response_def text_of_def json_of_def dict_get_def wrap_simps)

section \<open>Login\<close>

lemma scan_keys_dict:
  "scan_keys (JDict d) ks =
     Inr (case List.map_filter (held_string d) ks of [] \<Rightarrow> None | t # ts \<Rightarrow> Some t)"
  by (induction ks)
    (auto simp: has_key_def held_string_def split: option.splits json.splits list.splits)

lemma extract_token_dict:
  "extract_token (JDict d) = Inr (case token_fields d of [] \<Rightarrow> None | t # ts \<Rightarrow> Some t)"
  by (auto simp: extract_token_def token_fields_def scan_keys_dict has_key_def
      split: option.splits json.splits list.splits)

text \<open>
  C3, as the code has it. Let the login request be answered with status 200 and a dict
  body whose \<^verbatim>\<open>ok\<close> is not 0. If exactly one supported token field, at the top level
  or under a \<^verbatim>\<open>data\<close> wrapper, holds a string and that string is not empty,
  \<^verbatim>\<open>login\<close> returns it. If that one string is empty, or if no supported field holds
  a string, \<^verbatim>\<open>login\<close> raises \<open>CosaAPIError\<close>.
\<close>

theorem login_token_extraction:
  assumes "fst (post s (login_request email password)) = Reply r"
    and "status r = 200"
    and "body r = Parsed (JDict d)"
    and "\<not> ok_is_zero (JDict d)"
  shows "(token_fields d = [t] \<and> t \<noteq> [] \<longrightarrow> fst (login s email password) = Inr t) \<and>
         (token_fields d = [[]] \<longrightarrow> fst (login s email password) = Inl CosaAPIError) \<and>
         (token_fields d = [] \<longrightarrow> fst (login s email password) = Inl CosaAPIError)"
  using assms
  by (simp add: login_fst on_reply_Reply login_response_def text_of_Parsed json_of_Parsed
      extract_token_dict wrap_simps del: ok_is_zero.simps)

text \<open>A token nested under \<^verbatim>\<open>data\<close> is returned; a body without any token field is an
  API error.\<close>

theorem login_token_extraction_witness:
  "fst (login (probe [Reply \<lparr>status = 200,
       body = Parsed (JDict [(''success'', JBool True),
         (''data'', JDict [(''authToken'', JStr ''SAMPLETOKEN123'')])])\<rparr>])
     (JStr ''test@example.com'') (JStr ''testpass'')) = Inr ''SAMPLETOKEN123'' \<and>
   fst (login (probe [Reply \<lparr>status = 200, body = Parsed (JDict [(''ok'', JInt 1)])\<rparr>])
     (JStr ''test@example.com'') (JStr ''testpass'')) = Inl CosaAPIError"
  using
    login_token_extraction
      [of "probe [Reply \<lparr>status = 200,
         body = Parsed (JDict [(''success'', JBool True),
           (''data'', JDict [(''authToken'', JStr ''SAMPLETOKEN123'')])])\<rparr>]"
        "JStr ''test@example.com''" "JStr ''testpass''"
        "\<lparr>status = 200,
         body = Parsed (JDict [(''success'', JBool True),
           (''data'', JDict [(''authToken'', JStr ''SAMPLETOKEN123'')])])\<rparr>"
        "[(''success'', JBool True), (''data'', JDict [(''authToken'', JStr ''SAMPLETOKEN123'')])]"
        "''SAMPLETOKEN123''"]
    login_token_extraction
      [of "probe [Reply \<lparr>status = 200, body = Parsed (JDict [(''ok'', JInt 1)])\<rparr>]"
        "JStr ''test@example.com''" "JStr ''testpass''"
        "\<lparr>status = 200, body = Parsed (JDict [(''ok'', JInt 1)])\<rparr>"
        "[(''ok'', JInt 1)]" "[]"]
  by (simp add: probe_post dict_get_def token_fields_def token_keys_def held_string_def)

text \<open>C3 as stated does not hold: in the body \<^verbatim>\<open>{"token": ""}\<close> exactly one supported
  field holds a string, and \<^verbatim>\<open>login\<close> raises \<open>CosaAPIError\<close> instead of returning
  it.\<close>

theorem login_empty_token_counterexample:
  "token_fields [(''token'', JStr [])] = [[]] \<and>
   \<not> ok_is_zero (JDict [(''token'', JStr [])]) \<and>
   fst (login (probe [Reply \<lparr>status = 200, body = Parsed (JDict [(''token'', JStr [])])\<rparr>])
     (JStr ''test@example.com'') (JStr ''testpass'')) = Inl CosaAPIError"
  by (simp add: login_fst probe_post on_reply_Reply login_response_def text_of_def json_of_def
      extract_token_dict dict_get_def token_fields_def token_keys_def held_string_def
      wrap_simps)

section \<open>Device list and device detail\<close>

lemma py_len_has_len: "has_len v \<Longrightarrow> \<exists>n. py_len v = Inr n"
  by (cases v) simp_all

text \<open>
  C4, as the code has it. Let the request of \<^verbatim>\<open>get_endpoints\<close> be answered with
  status 200 and a dict body whose \<^verbatim>\<open>ok\<close> is not 0. Without an \<^verbatim>\<open>endpoints\<close> key
  the operation returns the empty list. With the key, its value is returned unchanged
  when it is a list (or another value that has a length: a string or a dict).
\<close>

theorem get_endpoints_result:
  assumes "fst (post s (get_endpoints_request token)) = Reply r"
    and "status r = 200"
    and "body r = Parsed (JDict d)"
    and "\<not> ok_is_zero (JDict d)"
  shows "(\<not> has_key d ''endpoints'' \<longrightarrow> fst (get_endpoints s token) = Inr (JList [])) \<and>
         (\<forall>v. map_of d ''endpoints'' = Some v \<and> has_len v \<longrightarrow>
            fst (get_endpoints s token) = Inr v)"
proof -
  have res: "fst (get_endpoints s token) =
      wrap_client_error
        (case py_len (dict_get d ''endpoints'' (JList [])) of
           Inl e \<Rightarrow> Inl e
         | Inr n \<Rightarrow> Inr (dict_get d ''endpoints'' (JList [])))"
    using assms
    by (simp add: get_endpoints_fst on_reply_Reply get_endpoints_response_def text_of_Parsed
        json_of_Parsed del: ok_is_zero.simps)
  have "\<not> has_key d ''endpoints'' \<Longrightarrow> fst (get_endpoints s token) = Inr (JList [])"
    by (simp add: res has_key_def dict_get_def wrap_simps)
  moreover have "fst (get_endpoints s token) = Inr v"
    if "map_of d ''endpoints'' = Some v" and "has_len v" for v
    using that py_len_has_len [of v] by (auto simp: res dict_get_def wrap_simps)
  ultimately show ?thesis by blast
qed

text \<open>A body without the device field, and a body that lists one device.\<close>

theorem get_endpoints_result_witness:
  "fst (get_endpoints (probe [Reply \<lparr>status = 200, body = Parsed (JDict [(''ok'', JInt 1)])\<rparr>])
     (JStr ''tok'')) = Inr (JList []) \<and>
   fst (get_endpoints (probe [Reply \<lparr>status = 200,
       body = Parsed (JDict [(''endpoints'', JList [JDict [(''id'', JStr ''end_001'')]]),
         (''ok'', JInt 1)])\<rparr>])
     (JStr ''tok'')) = Inr (JList [JDict [(''id'', JStr ''end_001'')]])"
  using
    get_endpoints_result
      [of "probe [Reply \<lparr>status = 200, body = Parsed (JDict [(''ok'', JInt 1)])\<rparr>]"
        "JStr ''tok''" "\<lparr>status = 200, body = Parsed (JDict [(''ok'', JInt 1)])\<rparr>"
        "[(''ok'', JInt 1)]"]
    get_endpoints_result
      [of "probe [Reply \<lparr>status = 200,
         body = Parsed (JDict [(''endpoints'', JList [JDict [(''id'', JStr ''end_001'')]]),
           (''ok'', JInt 1)])\<rparr>]"
        "JStr ''tok''"
        "\<lparr>status = 200,
         body = Parsed (JDict [(''endpoints'', JList [JDict [(''id'', JStr ''end_001'')]]),
           (''ok'', JInt 1)])\<rparr>"
        "[(''endpoints'', JList [JDict [(''id'', JStr ''end_001'')]]), (''ok'', JInt 1)]"]
  by (simp add: probe_post dict_get_def has_key_def)

text \<open>C4 as stated does not hold: with the body \<^verbatim>\<open>{"endpoints": null, "ok": 1}\<close> the
  key is present and its value is not returned; \<^verbatim>\<open>len(endpoints)\<close> raises
  \<open>TypeError\<close>.\<close>

theorem get_endpoints_null_counterexample:
  "fst (get_endpoints (probe [Reply \<lparr>status = 200,
       body = Parsed (JDict [(''endpoints'', JNull), (''ok'', JInt 1)])\<rparr>])
     (JStr ''tok'')) = Inl TypeError"
  by (simp add: get_endpoints_fst probe_post on_reply_Reply get_endpoints_response_def
      text_of_def json_of_def dict_get_def wrap_simps)

text \<open>
  C5. Let the request of \<^verbatim>\<open>get_endpoint_detail\<close> be answered with status 200 and a
  dict body whose \<^verbatim>\<open>ok\<close> is not 0. The operation returns the value under the key
  \<^verbatim>\<open>endpoint\<close> when the body has that key, and the body itself otherwise.
\<close>

theorem get_endpoint_detail_result:
  assumes "fst (post s (get_endpoint_detail_request token endpoint_id)) = Reply r"
    and "status r = 200"
    and "body r = Parsed (JDict d)"
    and "\<not> ok_is_zero (JDict d)"
  shows "fst (get_endpoint_detail s token endpoint_id) =
           Inr (case map_of d ''endpoint'' of Some v \<Rightarrow> v | None \<Rightarrow> JDict d)"
  using assms
  by (simp add: get_endpoint_detail_fst on_reply_Reply get_endpoint_detail_response_def
      json_of_Parsed dict_get_def wrap_simps del: ok_is_zero.simps)

text \<open>A wrapped record is unwrapped; a bare record is returned as it is.\<close>

theorem get_endpoint_detail_result_witness:
  "fst (get_endpoint_detail (probe [Reply \<lparr>status = 200,
       body = Parsed (JDict [(''endpoint'', JDict [(''id'', JStr ''e1'')]), (''ok'', JInt 1)])\<rparr>])
     (JStr ''tok'') (JStr ''e1'')) = Inr (JDict [(''id'', JStr ''e1'')]) \<and>
   fst (get_endpoint_detail (probe [Reply \<lparr>status = 200,
       body = Parsed (JDict [(''id'', JStr ''e1''), (''temperature'', JInt 26)])\<rparr>])
     (JStr ''tok'') (JStr ''e1'')) = Inr (JDict [(''id'', JStr ''e1''), (''temperature'', JInt 26)])"
  using
    get_endpoint_detail_result
      [of "probe [Reply \<lparr>status = 200,
         body = Parsed (JDict [(''endpoint'', JDict [(''id'', JStr ''e1'')]), (''ok'', JInt 1)])\<rparr>]"
        "JStr ''tok''" "JStr ''e1''"
        "\<lparr>status = 200,
         body = Parsed (JDict [(''endpoint'', JDict [(''id'', JStr ''e1'')]), (''ok'', JInt 1)])\<rparr>"
        "[(''endpoint'', JDict [(''id'', JStr ''e1'')]), (''ok'', JInt 1)]"]
    get_endpoint_detail_result
      [of "probe [Reply \<lparr>status = 200,
         body = Parsed (JDict [(''id'', JStr ''e1''), (''temperature'', JInt 26)])\<rparr>]"
        "JStr ''tok''" "JStr ''e1''"
        "\<lparr>status = 200,
         body = Parsed (JDict [(''id'', JStr ''e1''), (''temperature'', JInt 26)])\<rparr>"
        "[(''id'', JStr ''e1''), (''temperature'', JInt 26)]"]
  by (simp add: probe_post dict_get_def)

section \<open>Commands\<close>

lemma set_mode_returns_True:
  "fst (set_mode s token endpoint_id mode option) = Inr b \<Longrightarrow> b"
  by (cases "fst (post s (set_mode_request token endpoint_id mode option))")
    (auto simp: set_mode_fst on_reply_def set_mode_response_def wrap_client_error_def
      split: sum.splits if_splits)

lemma set_mode_success:
  assumes "fst (post s (set_mode_request token endpoint_id mode option)) = Reply r"
    and "status r = 200" and "body r = Parsed v" and "\<not> ok_is_zero v"
  shows "fst (set_mode s token endpoint_id mode option) = Inr True"
  using assms
  by (simp add: set_mode_fst on_reply_Reply set_mode_response_def json_of_Parsed wrap_simps)

text \<open>
  C6. \<^verbatim>\<open>set_mode\<close> sends exactly one request. Its payload is a dict that has the key
  \<^verbatim>\<open>option\<close> if and only if the option argument is truthy (given and not empty: None
  and the empty string are not), then with the argument as its value; it always carries
  the endpoint id and the mode. Answered with status 200 and a body that does not say
  \<^verbatim>\<open>ok == 0\<close> the operation returns \<^verbatim>\<open>True\<close>, and whenever it returns, it returns
  \<^verbatim>\<open>True\<close>.
\<close>

theorem set_mode_payload:
  "\<exists>p. sent (snd (set_mode s token endpoint_id mode option)) =
          sent s @ [set_mode_request token endpoint_id mode option] \<and>
        req_json (set_mode_request token endpoint_id mode option) = JDict p \<and>
        has_key p ''option'' = truthy option \<and>
        (truthy option \<longrightarrow> map_of p ''option'' = Some option) \<and>
        map_of p ''endpoint'' = Some endpoint_id \<and>
        map_of p ''mode'' = Some mode \<and>
        (\<forall>r v. fst (post s (set_mode_request token endpoint_id mode option)) = Reply r \<and>
           status r = 200 \<and> body r = Parsed v \<and> \<not> ok_is_zero v \<longrightarrow>
           fst (set_mode s token endpoint_id mode option) = Inr True) \<and>
        (\<forall>b. fst (set_mode s token endpoint_id mode option) = Inr b \<longrightarrow> b)"
proof -
  let ?p = "if truthy option
            then [(''endpoint'', endpoint_id), (''mode'', mode), (''option'', option)]
            else [(''endpoint'', endpoint_id), (''mode'', mode)]"
  have "sent (snd (set_mode s token endpoint_id mode option)) =
          sent s @ [set_mode_request token endpoint_id mode option]"
    by (simp add: set_mode_snd post_sent)
  moreover have "req_json (set_mode_request token endpoint_id mode option) = JDict ?p"
    by (simp add: set_mode_request_def)
  moreover have "has_key ?p ''option'' = truthy option"
    by (simp add: has_key_def)
  moreover have "truthy option \<longrightarrow> map_of ?p ''option'' = Some option"
    by simp
  moreover have "map_of ?p ''endpoint'' = Some endpoint_id" and "map_of ?p ''mode'' = Some mode"
    by simp_all
  moreover have "\<forall>r v. fst (post s (set_mode_request token endpoint_id mode option)) = Reply r \<and>
           status r = 200 \<and> body r = Parsed v \<and> \<not> ok_is_zero v \<longrightarrow>
           fst (set_mode s token endpoint_id mode option) = Inr True"
    using set_mode_success by blast
  moreover have "\<forall>b. fst (set_mode s token endpoint_id mode option) = Inr b \<longrightarrow> b"
    using set_mode_returns_True by blast
  ultimately show ?thesis by blast
qed

text \<open>Switching to manual mode with the option \<^verbatim>\<open>frozen\<close>, accepted by the server.\<close>

theorem set_mode_payload_witness:
  "truthy (JStr ''frozen'') \<and>
   fst (set_mode (probe [Reply \<lparr>status = 200, body = Parsed (JDict [(''ok'', JInt 1)])\<rparr>])
     (JStr ''tok'') (JStr ''ep1'') (JStr ''manual'') (JStr ''frozen'')) = Inr True"
proof -
  let ?s = "probe [Reply \<lparr>status = 200, body = Parsed (JDict [(''ok'', JInt 1)])\<rparr>]"
  from set_mode_payload [of ?s "JStr ''tok''" "JStr ''ep1''" "JStr ''manual''" "JStr ''frozen''"]
  have "\<forall>r v. fst (post ?s (set_mode_request (JStr ''tok'') (JStr ''ep1'') (JStr ''manual'')
            (JStr ''frozen''))) = Reply r \<and>
           status r = 200 \<and> body r = Parsed v \<and> \<not> ok_is_zero v \<longrightarrow>
           fst (set_mode ?s (JStr ''tok'') (JStr ''ep1'') (JStr ''manual'') (JStr ''frozen''))
             = Inr True"
    by blast
  then show ?thesis
    by (simp add: probe_post dict_get_def)
qed

lemma set_target_temperatures_returns_True:
  "fst (set_target_temperatures s token endpoint_id home away sleep custom) = Inr b \<Longrightarrow> b"
  by (cases "fst (post s
        (set_target_temperatures_request token endpoint_id home away sleep custom))")
    (auto simp: set_target_temperatures_fst on_reply_def set_target_temperatures_response_def
      wrap_client_error_def split: sum.splits if_splits)

lemma set_target_temperatures_success:
  assumes "fst (post s (set_target_temperatures_request token endpoint_id home away sleep custom))
      = Reply r"
    and "status r = 200" and "body r = Parsed v" and "\<not> ok_is_zero v"
  shows "fst (set_target_temperatures s token endpoint_id home away sleep custom) = Inr True"
  using assms
  by (simp add: set_target_temperatures_fst on_reply_Reply set_target_temperatures_response_def
      json_of_Parsed wrap_simps)

text \<open>
  C7. \<^verbatim>\<open>set_target_temperatures\<close> sends exactly one request, whose payload carries the
  endpoint id and, under \<^verbatim>\<open>targetTemperatures\<close>, all four setpoints home, away, sleep
  and custom as they were passed, whatever their values. Answered with status 200 and a
  body that does not say \<^verbatim>\<open>ok == 0\<close> the operation returns \<^verbatim>\<open>True\<close>, and whenever
  it returns, it returns \<^verbatim>\<open>True\<close>.
\<close>

theorem set_target_temperatures_payload:
  "sent (snd (set_target_temperatures s token endpoint_id home away sleep custom)) =
     sent s @ [set_target_temperatures_request token endpoint_id home away sleep custom] \<and>
   req_json (set_target_temperatures_request token endpoint_id home away sleep custom) =
     JDict [(''endpoint'', endpoint_id),
            (''targetTemperatures'',
             JDict [(''home'', home), (''away'', away), (''sleep'', sleep), (''custom'', custom)])] \<and>
   (\<forall>r v. fst (post s (set_target_temperatures_request token endpoint_id home away sleep custom))
             = Reply r \<and>
      status r = 200 \<and> body r = Parsed v \<and> \<not> ok_is_zero v \<longrightarrow>
      fst (set_target_temperatures s token endpoint_id home away sleep custom) = Inr True) \<and>
   (\<forall>b. fst (set_target_temperatures s token endpoint_id home away sleep custom) = Inr b \<longrightarrow> b)"
proof -
  have "sent (snd (set_target_temperatures s token endpoint_id home away sleep custom)) =
     sent s @ [set_target_temperatures_request token endpoint_id home away sleep custom]"
    by (simp add: set_target_temperatures_snd post_sent)
  moreover have
    "req_json (set_target_temperatures_request token endpoint_id home away sleep custom) =
     JDict [(''endpoint'', endpoint_id),
            (''targetTemperatures'',
             JDict [(''home'', home), (''away'', away), (''sleep'', sleep), (''custom'', custom)])]"
    by (simp add: set_target_temperatures_request_def)
  moreover have
    "\<forall>r v. fst (post s (set_target_temperatures_request token endpoint_id home away sleep custom))
             = Reply r \<and>
      status r = 200 \<and> body r = Parsed v \<and> \<not> ok_is_zero v \<longrightarrow>
      fst (set_target_temperatures s token endpoint_id home away sleep custom) = Inr True"
    using set_target_temperatures_success by blast
  moreover have
    "\<forall>b. fst (set_target_temperatures s token endpoint_id home away sleep custom) = Inr b \<longrightarrow> b"
    using set_target_temperatures_returns_True by blast
  ultimately show ?thesis by blast
qed

text \<open>Setting home to 22, away to 16, sleep to 18 and custom to 20, accepted by the
  server.\<close>

theorem set_target_temperatures_payload_witness:
  "fst (set_target_temperatures
     (probe [Reply \<lparr>status = 200, body = Parsed (JDict [(''ok'', JInt 1)])\<rparr>])
     (JStr ''tok'') (JStr ''ep1'') (JInt 22) (JInt 16) (JInt 18) (JInt 20)) = Inr True"
proof -
  let ?s = "probe [Reply \<lparr>status = 200, body = Parsed (JDict [(''ok'', JInt 1)])\<rparr>]"
  from set_target_temperatures_payload
    [of ?s "JStr ''tok''" "JStr ''ep1''" "JInt 22" "JInt 16" "JInt 18" "JInt 20"]
  have "\<forall>r v. fst (post ?s (set_target_temperatures_request (JStr ''tok'') (JStr ''ep1'')
            (JInt 22) (JInt 16) (JInt 18) (JInt 20))) = Reply r \<and>
           status r = 200 \<and> body r = Parsed v \<and> \<not> ok_is_zero v \<longrightarrow>
           fst (set_target_temperatures ?s (JStr ''tok'') (JStr ''ep1'')
             (JInt 22) (JInt 16) (JInt 18) (JInt 20)) = Inr True"
    by blast
  then show ?thesis
    by (simp add: probe_post dict_get_def)
qed

section \<open>State extraction\<close>

lemma py_get_key_hashable:
  "hashable k \<Longrightarrow>
   py_get_key d k dflt = Inr (case k of JStr n \<Rightarrow> dict_get d n dflt | _ \<Rightarrow> dflt)"
  by (cases k) simp_all

lemma extract_endpoint_state_unfold:
  "extract_endpoint_state (JDict d) =
     (case (if dict_get d ''targetTemperature'' JNull = JNull
            then py_get_key (target_temps_of d) (dict_get d ''option'' (JStr ''home''))
                   (JFloat (Finite 20))
            else Inr (dict_get d ''targetTemperature'' JNull)) of
        Inl e \<Rightarrow> Inl e
      | Inr current_target \<Rightarrow>
          Inr (JDict
            [(''endpoint_id'', py_or (dict_get d ''id'' JNull) (dict_get d ''_id'' JNull)),
             (''name'', dict_get d ''name'' (JStr ''COSA Termostat'')),
             (''temperature'', dict_get d ''temperature'' JNull),
             (''humidity'', dict_get d ''humidity'' JNull),
             (''target_temperature'', current_target),
             (''mode'', dict_get d ''mode'' (JStr ''manual'')),
             (''option'', dict_get d ''option'' (JStr ''home'')),
             (''combi_state'', dict_get d ''combiState'' (JStr ''off'')),
             (''is_connected'', dict_get d ''isConnected'' (JBool False)),
             (''operation_mode'', dict_get d ''operationMode'' (JStr ''heating'')),
             (''target_temperatures'', JDict (target_temps_of d))]))"
  by (cases "has_key d ''homeTemperature''")
    (simp_all add: extract_endpoint_state_def target_temps_of_def Let_def split: sum.splits)

lemma extract_endpoint_state_resolvable:
  assumes "target_resolvable d"
  shows "\<exists>st. extract_endpoint_state (JDict d) = Inr (JDict st) \<and>
           map_of st ''target_temperatures'' = Some (JDict (target_temps_of d)) \<and>
           map_of st ''target_temperature'' =
             Some (if dict_get d ''targetTemperature'' JNull \<noteq> JNull
                   then dict_get d ''targetTemperature'' JNull
                   else case dict_get d ''option'' (JStr ''home'') of
                          JStr n \<Rightarrow> dict_get (target_temps_of d) n (JFloat (Finite 20))
                        | _ \<Rightarrow> JFloat (Finite 20))"
proof (cases "dict_get d ''targetTemperature'' JNull = JNull")
  case True
  with assms have "hashable (dict_get d ''option'' (JStr ''home''))"
    by (simp add: target_resolvable_def)
  from py_get_key_hashable [OF this] True show ?thesis
    by (simp add: extract_endpoint_state_unfold)
next
  case False
  then show ?thesis
    by (simp add: extract_endpoint_state_unfold)
qed

text \<open>
  C8, as the code has it. Take a device record on which \<^verbatim>\<open>extract_endpoint_state\<close>
  returns: one whose \<^verbatim>\<open>targetTemperature\<close> is present and not None, or whose option
  is not a JSON array or object. If the record has the four fields
  \<^verbatim>\<open>homeTemperature\<close>, \<^verbatim>\<open>awayTemperature\<close>, \<^verbatim>\<open>sleepTemperature\<close> and
  \<^verbatim>\<open>customTemperature\<close>, the \<^verbatim>\<open>target_temperatures\<close> of the result are exactly
  those four values under home, away, sleep and custom. If the record has no
  \<^verbatim>\<open>homeTemperature\<close> key, they are the defaults 20.0, 15.0, 18.0 and 20.0.
\<close>

theorem extract_target_temperatures:
  assumes "target_resolvable d"
  shows "\<exists>st. extract_endpoint_state (JDict d) = Inr (JDict st) \<and>
           (\<forall>h a sl c. map_of d ''homeTemperature'' = Some h \<and>
              map_of d ''awayTemperature'' = Some a \<and>
              map_of d ''sleepTemperature'' = Some sl \<and>
              map_of d ''customTemperature'' = Some c \<longrightarrow>
              map_of st ''target_temperatures'' =
                Some (JDict [(''home'', h), (''away'', a), (''sleep'', sl), (''custom'', c)])) \<and>
           (\<not> has_key d ''homeTemperature'' \<longrightarrow>
              map_of st ''target_temperatures'' =
                Some (JDict [(''home'', JFloat (Finite 20)), (''away'', JFloat (Finite 15)),
                             (''sleep'', JFloat (Finite 18)), (''custom'', JFloat (Finite 20))]))"
proof -
  from extract_endpoint_state_resolvable [OF assms] obtain st where
    st: "extract_endpoint_state (JDict d) = Inr (JDict st)"
      "map_of st ''target_temperatures'' = Some (JDict (target_temps_of d))"
    by blast
  have "target_temps_of d = [(''home'', h), (''away'', a), (''sleep'', sl), (''custom'', c)]"
    if "map_of d ''homeTemperature'' = Some h" "map_of d ''awayTemperature'' = Some a"
      "map_of d ''sleepTemperature'' = Some sl" "map_of d ''customTemperature'' = Some c"
    for h a sl c
    using that by (simp add: target_temps_of_def has_key_def dict_get_def)
  moreover have "target_temps_of d =
      [(''home'', JFloat (Finite 20)), (''away'', JFloat (Finite 15)),
       (''sleep'', JFloat (Finite 18)), (''custom'', JFloat (Finite 20))]"
    if "\<not> has_key d ''homeTemperature''"
    using that by (simp add: target_temps_of_def)
  ultimately show ?thesis using st by auto
qed

text \<open>A detailed record with its own four setpoints, and a list-shaped record.\<close>

theorem extract_target_temperatures_witness:
  "target_resolvable
     [(''homeTemperature'', JInt 22), (''awayTemperature'', JInt 16),
      (''sleepTemperature'', JInt 18), (''customTemperature'', JInt 20),
      (''option'', JStr ''home'')] \<and>
   (\<exists>st. extract_endpoint_state (JDict
       [(''homeTemperature'', JInt 22), (''awayTemperature'', JInt 16),
        (''sleepTemperature'', JInt 18), (''customTemperature'', JInt 20),
        (''option'', JStr ''home'')]) = Inr (JDict st) \<and>
      map_of st ''target_temperatures'' =
        Some (JDict [(''home'', JInt 22), (''away'', JInt 16),
                     (''sleep'', JInt 18), (''custom'', JInt 20)])) \<and>
   target_resolvable [(''id'', JStr ''ep1''), (''targetTemperature'', JFloat (Finite (129 / 5)))] \<and>
   (\<exists>st. extract_endpoint_state (JDict
       [(''id'', JStr ''ep1''), (''targetTemperature'', JFloat (Finite (129 / 5)))])
         = Inr (JDict st) \<and>
      map_of st ''target_temperatures'' =
        Some (JDict [(''home'', JFloat (Finite 20)), (''away'', JFloat (Finite 15)),
                     (''sleep'', JFloat (Finite 18)), (''custom'', JFloat (Finite 20))]))"
proof -
  let ?d1 = "[(''homeTemperature'', JInt 22), (''awayTemperature'', JInt 16),
      (''sleepTemperature'', JInt 18), (''customTemperature'', JInt 20),
      (''option'', JStr ''home'')]"
  let ?d2 = "[(''id'', JStr ''ep1''), (''targetTemperature'', JFloat (Finite (129 / 5)))]"
  have r1: "target_resolvable ?d1" and r2: "target_resolvable ?d2"
    by (simp_all add: target_resolvable_def dict_get_def)
  from extract_target_temperatures [OF r1] extract_target_temperatures [OF r2] r1 r2
  show ?thesis
    by (simp add: has_key_def)
qed

text \<open>C8 as stated does not hold: this record has the four setpoint fields, and
  \<^verbatim>\<open>extract_endpoint_state\<close> returns no state for it. It has no
  \<^verbatim>\<open>targetTemperature\<close> and its option is an object, which
  \<^verbatim>\<open>target_temps.get(option, 20.0)\<close> cannot hash.\<close>

theorem extract_target_temperatures_counterexample:
  "extract_endpoint_state
     (JDict [(''homeTemperature'', JInt 21), (''awayTemperature'', JInt 16),
             (''sleepTemperature'', JInt 18), (''customTemperature'', JInt 20),
             (''option'', JDict [])]) = Inl TypeError"
  by (simp add: extract_endpoint_state_def has_key_def dict_get_def)

text \<open>
  C9, as the code has it. Take a device record whose \<^verbatim>\<open>targetTemperature\<close> is present
  and not None, or whose option is not a JSON array or object. Then
  \<^verbatim>\<open>extract_endpoint_state\<close> returns a state, and its \<^verbatim>\<open>target_temperature\<close> is the
  record's \<^verbatim>\<open>targetTemperature\<close> when that is present and not None. Otherwise it is the
  setpoint named by the record's option (home when the record has no option), taken
  from the setpoints computed from the record: the record's own per-option field when it
  has the detailed shape, the fixed default otherwise. When the option names no setpoint
  it is 20.0; the setpoints are named home, away, sleep and custom and nothing else.
\<close>

theorem extract_target_temperature:
  assumes "target_resolvable d"
  shows "(\<exists>st. extract_endpoint_state (JDict d) = Inr (JDict st) \<and>
            map_of st ''target_temperatures'' = Some (JDict (target_temps_of d)) \<and>
            map_of st ''target_temperature'' =
              Some (if dict_get d ''targetTemperature'' JNull \<noteq> JNull
                    then dict_get d ''targetTemperature'' JNull
                    else case dict_get d ''option'' (JStr ''home'') of
                           JStr n \<Rightarrow>
                             (case map_of (target_temps_of d) n of
                                Some v \<Rightarrow> v
                              | None \<Rightarrow> JFloat (Finite 20))
                         | _ \<Rightarrow> JFloat (Finite 20))) \<and>
         (\<forall>n. has_key (target_temps_of d) n =
            (n \<in> {''home'', ''away'', ''sleep'', ''custom''}))"
proof -
  from extract_endpoint_state_resolvable [OF assms] obtain st where
    st: "extract_endpoint_state (JDict d) = Inr (JDict st)"
    and tts: "map_of st ''target_temperatures'' = Some (JDict (target_temps_of d))"
    and ct: "map_of st ''target_temperature'' =
             Some (if dict_get d ''targetTemperature'' JNull \<noteq> JNull
                   then dict_get d ''targetTemperature'' JNull
                   else case dict_get d ''option'' (JStr ''home'') of
                          JStr n \<Rightarrow> dict_get (target_temps_of d) n (JFloat (Finite 20))
                        | _ \<Rightarrow> JFloat (Finite 20))"
    by blast
  have keys: "has_key (target_temps_of d) n = (n \<in> {''home'', ''away'', ''sleep'', ''custom''})"
    for n
    by (auto simp: target_temps_of_def has_key_def)
  from st tts ct keys show ?thesis
    unfolding dict_get_def by blast
qed

text \<open>A list-shaped record with the option \<^verbatim>\<open>away\<close> has the target 15.0; a detailed
  record with the option \<^verbatim>\<open>sleep\<close> has its own sleep setpoint; the option
  \<^verbatim>\<open>frozen\<close> names no setpoint and gives 20.0; a record with a
  \<^verbatim>\<open>targetTemperature\<close> has that target, whatever its option.\<close>

theorem extract_target_temperature_witness:
  "target_resolvable [(''id'', JStr ''ep1''), (''option'', JStr ''away'')] \<and>
   (\<exists>st. extract_endpoint_state (JDict [(''id'', JStr ''ep1''), (''option'', JStr ''away'')])
         = Inr (JDict st) \<and>
      map_of st ''target_temperature'' = Some (JFloat (Finite 15))) \<and>
   target_resolvable
     [(''homeTemperature'', JInt 22), (''awayTemperature'', JInt 16),
      (''sleepTemperature'', JInt 18), (''customTemperature'', JInt 20),
      (''option'', JStr ''sleep'')] \<and>
   (\<exists>st. extract_endpoint_state (JDict
       [(''homeTemperature'', JInt 22), (''awayTemperature'', JInt 16),
        (''sleepTemperature'', JInt 18), (''customTemperature'', JInt 20),
        (''option'', JStr ''sleep'')]) = Inr (JDict st) \<and>
      map_of st ''target_temperature'' = Some (JInt 18)) \<and>
   target_resolvable
     [(''id'', JStr ''ep1''), (''mode'', JStr ''manual''), (''option'', JStr ''frozen'')] \<and>
   (\<exists>st. extract_endpoint_state (JDict
       [(''id'', JStr ''ep1''), (''mode'', JStr ''manual''), (''option'', JStr ''frozen'')])
         = Inr (JDict st) \<and>
      map_of st ''target_temperature'' = Some (JFloat (Finite 20))) \<and>
   target_resolvable
     [(''targetTemperature'', JFloat (Finite (129 / 5))), (''option'', JList [])] \<and>
   (\<exists>st. extract_endpoint_state (JDict
       [(''targetTemperature'', JFloat (Finite (129 / 5))), (''option'', JList [])])
         = Inr (JDict st) \<and>
      map_of st ''target_temperature'' = Some (JFloat (Finite (129 / 5))))"
proof -
  let ?d1 = "[(''id'', JStr ''ep1''), (''option'', JStr ''away'')]"
  let ?d2 = "[(''homeTemperature'', JInt 22), (''awayTemperature'', JInt 16),
      (''sleepTemperature'', JInt 18), (''customTemperature'', JInt 20),
      (''option'', JStr ''sleep'')]"
  let ?d3 = "[(''id'', JStr ''ep1''), (''mode'', JStr ''manual''), (''option'', JStr ''frozen'')]"
  let ?d4 = "[(''targetTemperature'', JFloat (Finite (129 / 5))), (''option'', JList [])]"
  have r1: "target_resolvable ?d1" and r2: "target_resolvable ?d2"
    and r3: "target_resolvable ?d3" and r4: "target_resolvable ?d4"
    by (simp_all add: target_resolvable_def dict_get_def)
  from conjunct1 [OF extract_target_temperature [OF r1]] have w1:
    "\<exists>st. extract_endpoint_state (JDict ?d1) = Inr (JDict st) \<and>
       map_of st ''target_temperature'' = Some (JFloat (Finite 15))"
    by (auto simp: target_temps_of_def has_key_def dict_get_def)
  from conjunct1 [OF extract_target_temperature [OF r2]] have w2:
    "\<exists>st. extract_endpoint_state (JDict ?d2) = Inr (JDict st) \<and>
       map_of st ''target_temperature'' = Some (JInt 18)"
    by (auto simp: target_temps_of_def has_key_def dict_get_def)
  from conjunct1 [OF extract_target_temperature [OF r3]] have w3:
    "\<exists>st. extract_endpoint_state (JDict ?d3) = Inr (JDict st) \<and>
       map_of st ''target_temperature'' = Some (JFloat (Finite 20))"
    by (auto simp: target_temps_of_def has_key_def dict_get_def)
  from conjunct1 [OF extract_target_temperature [OF r4]] have w4:
    "\<exists>st. extract_endpoint_state (JDict ?d4) = Inr (JDict st) \<and>
       map_of st ''target_temperature'' = Some (JFloat (Finite (129 / 5)))"
    by (auto simp: target_temps_of_def has_key_def dict_get_def)
  from r1 w1 r2 w2 r3 w3 r4 w4 show ?thesis by blast
qed

text \<open>C9 as stated does not hold: for the record \<^verbatim>\<open>{"id": "ep1", "option": []}\<close> the
  target is not 20.0; \<^verbatim>\<open>target_temps.get(option, 20.0)\<close> raises \<open>TypeError\<close>.\<close>

theorem extract_target_temperature_counterexample:
  "extract_endpoint_state (JDict [(''id'', JStr ''ep1''), (''option'', JList [])]) = Inl TypeError"
  by (simp add: extract_endpoint_state_def has_key_def dict_get_def)

section \<open>The refresh cycle\<close>

lemma update_relogin_raises:
  "\<exists>e. update_relogin c s =
     (Inl e, c, snd (post s (login_request (self_email c) (self_password c))))"
proof -
  obtain lr s2 where l: "login s (self_email c) (self_password c) = (lr, s2)"
    by (cases "login s (self_email c) (self_password c)")
  then have s2: "s2 = snd (post s (login_request (self_email c) (self_password c)))"
    using login_snd [of s "self_email c" "self_password c"] by simp
  show ?thesis
    by (cases lr) (simp_all add: update_relogin_def l s2)
qed

text \<open>Once the first call has failed with \<open>CosaAuthError\<close>, a refresh sends the login
  request and nothing after it, keeps the coordinator as it was, and raises.\<close>

lemma async_update_data_auth_error:
  assumes "fst (update_try c s) = Inl CosaAuthError"
  shows "\<exists>e. async_update_data c s =
           (Inl e, c,
            snd (post (snd (update_try c s)) (login_request (self_email c) (self_password c))))"
proof -
  obtain res s1 where t: "update_try c s = (res, s1)"
    by (cases "update_try c s")
  with assms have res: "res = Inl CosaAuthError" by simp
  have "first_handler update_handlers CosaAuthError = Some Relogin"
    by (simp add: update_handlers_def isinstance_def)
  then have "async_update_data c s = update_relogin c s1"
    by (simp add: async_update_data_def t res)
  with update_relogin_raises [of c s1] show ?thesis
    by (simp add: t)
qed

text \<open>
  C2, on the code. The coordinator holds the token \<^verbatim>\<open>old\<close>; the server rejects the
  device-detail request with 401 and answers the login that follows with status 200 and
  \<^verbatim>\<open>{"ok": 1, "token": "new"}\<close>. The refresh sends the device-detail request and the
  login request and no third request, leaves the stored token at \<^verbatim>\<open>old\<close>, and raises
  \<open>AttributeError\<close>: the token is not replaced and the device-detail call is not
  issued again.
\<close>

theorem refresh_relogin_attribute_error:
  "(case async_update_data stale_coordinator (probe expired_then_fresh) of
      (res, c', s') \<Rightarrow> (res, self_token c', map req_url (sent s'))) =
   (Inl AttributeError, JStr ''old'',
    [API_BASE_URL @ ENDPOINT_GET_ENDPOINT, API_BASE_URL @ ENDPOINT_LOGIN])"
  by (simp add: async_update_data_def update_try_def update_relogin_def update_handlers_def
      get_endpoint_detail_def login_def post_def probe_def expired_then_fresh_def
      stale_coordinator_def on_reply_def get_endpoint_detail_response_def login_response_def
      get_endpoint_detail_request_def login_request_def
      text_of_def json_of_def extract_token_def token_keys_def has_key_def dict_get_def
      wrap_client_error_def isinstance_def)

section \<open>The exception hierarchy\<close>

text \<open>
  C10. \<open>CosaAuthError\<close> is a subclass of \<open>CosaAPIError\<close> and not the other way
  round, so whatever an \<^verbatim>\<open>except CosaAuthError\<close> clause catches, an
  \<^verbatim>\<open>except CosaAPIError\<close> clause catches too: a handler for \<open>CosaAPIError\<close> alone
  takes an authentication failure. The coordinator's clauses, in the order written, send
  an authentication failure to the re-login clause and any other API error to the
  wrapping clause; in the opposite order the wrapping clause would take the
  authentication failure.
\<close>

theorem auth_error_is_api_error:
  "isinstance CosaAuthError CosaAPIError \<and>
   \<not> isinstance CosaAPIError CosaAuthError \<and>
   (\<forall>e. isinstance e CosaAuthError \<longrightarrow> isinstance e CosaAPIError) \<and>
   first_handler [(CosaAPIError, h)] CosaAuthError = Some h \<and>
   first_handler update_handlers CosaAuthError = Some Relogin \<and>
   first_handler update_handlers CosaAPIError = Some Wrap \<and>
   first_handler (rev update_handlers) CosaAuthError = Some Wrap"
proof -
  have "isinstance e CosaAuthError \<Longrightarrow> isinstance e CosaAPIError" for e
    by (cases e) (simp_all add: isinstance_def)
  then show ?thesis
    by (simp add: isinstance_def update_handlers_def)
qed

text \<open>The authentication failure itself is an instance of both classes.\<close>

theorem auth_error_is_api_error_witness:
  "isinstance CosaAuthError CosaAuthError \<and> isinstance CosaAuthError CosaAPIError"
proof -
  from auth_error_is_api_error [of Relogin]
  have "\<forall>e. isinstance e CosaAuthError \<longrightarrow> isinstance e CosaAPIError"
    by blast
  then have "isinstance CosaAuthError CosaAuthError \<longrightarrow> isinstance CosaAuthError CosaAPIError"
    by blast
  moreover have "isinstance CosaAuthError CosaAuthError"
    by (simp add: isinstance_def)
  ultimately show ?thesis by blast
qed

end
